theory Spec2Isabelle
  imports Complex_Main "HOL-Library.Log_Nat" "HOL-Library.Code_Target_Numeral"
begin

section \<open>JavaScript values and built-ins used by the engine\<close>

text \<open>
  Strings are lists of code units; a \<^typ>\<open>char\<close> stands for a code unit below 256, so
  the model covers the strings of the Latin-1 range. A number is not-a-number, an
  infinity (the flag is the sign, \<open>True\<close> for negative), the negative zero, or a finite
  binary64 value given by its exact rational value (\<open>Finite 0\<close> is the positive zero).
  Besides the primitives a value can be a member of \<open>Object.prototype\<close>, reached through
  the prototype chain: \<open>JInherited m\<close> is the value of \<open>Object.prototype[m]\<close>, a function
  for every member but \<open>__proto__\<close>, whose getter gives \<open>Object.prototype\<close> itself.
\<close>

datatype jsnum = NaN | Infinity bool | Finite rat | NegZero

datatype jsval =
  JUndefined | JNull | JStr string | JNum jsnum | JBool bool | JInherited string

text \<open>\<open>Number.isNaN\<close>.\<close>

fun isNaN :: "jsnum \<Rightarrow> bool" where
  "isNaN NaN = True"
| "isNaN (Infinity s) = False"
| "isNaN (Finite q) = False"
| "isNaN NegZero = False"

text \<open>
  Truthiness of an optional boolean property (\<open>!!x\<close>, and \<open>x\<close> as a condition): an
  absent property reads as \<open>undefined\<close>, which is falsy.
\<close>

fun truthy :: "bool option \<Rightarrow> bool" where
  "truthy None = False"
| "truthy (Some b) = b"

subsection \<open>\<open>String.prototype.toLowerCase\<close>\<close>

text \<open>
  On code units below 256 the lower-case mapping moves \<open>A\<close>..\<open>Z\<close> and the Latin-1
  capitals \<open>0xC0\<close>..\<open>0xDE\<close> (without the multiplication sign \<open>0xD7\<close>) up by 32 and
  leaves every other code unit alone.
\<close>

definition isUpper :: "char \<Rightarrow> bool" where
  "isUpper c \<longleftrightarrow>
     (let n = (of_char c :: nat)
      in (65 \<le> n \<and> n \<le> 90) \<or> (192 \<le> n \<and> n \<le> 222 \<and> n \<noteq> 215))"

definition lowerChar :: "char \<Rightarrow> char" where
  "lowerChar c = (if isUpper c then char_of ((of_char c :: nat) + 32) else c)"

definition toLowerCase :: "string \<Rightarrow> string" where
  "toLowerCase s = map lowerChar s"

subsection \<open>Rounding to binary64\<close>

text \<open>
  The value of a numeric literal is rounded to the nearest double, ties to the even
  significand. \<open>binaryExponent q\<close> is the integer part of the binary logarithm of a
  positive \<open>q\<close>; the spacing of the doubles around \<open>q\<close> is two to the power of that
  exponent (at least \<open>-1022\<close>, where the subnormal numbers begin) minus 52. A result of
  \<open>2^1024\<close> or more is an infinity.
\<close>

definition roundHalfEven :: "rat \<Rightarrow> int" where
  "roundHalfEven x =
     (let f = \<lfloor>x\<rfloor>; r = x - of_int f
      in if r < 1 / 2 then f else if 1 / 2 < r then f + 1 else if even f then f else f + 1)"

definition binaryExponent :: "rat \<Rightarrow> int" where
  "binaryExponent q = (if 1 \<le> q then bitlen \<lfloor>q\<rfloor> - 1 else - bitlen (\<lceil>1 / q\<rceil> - 1))"

definition pow2 :: "int \<Rightarrow> rat" where
  "pow2 e = (if 0 \<le> e then 2 ^ nat e else 1 / 2 ^ nat (- e))"

definition roundToDouble :: "rat \<Rightarrow> jsnum" where
  "roundToDouble q =
     (if q = 0 then Finite 0
      else
        let e = max (binaryExponent q) (- 1022);
            ulp = pow2 (e - 52);
            v = of_int (roundHalfEven (q / ulp)) * ulp
        in if pow2 1024 \<le> v then Infinity False else Finite v)"

subsection \<open>\<open>Number(string)\<close>: the StringToNumber conversion\<close>

text \<open>
  The conversion strips leading and trailing white space and line terminators, reads the
  empty string as 0, and otherwise reads a binary, octal or hexadecimal integer literal
  or a signed decimal literal (\<open>Infinity\<close>, digits with an optional fraction and an
  optional exponent), rounded to a double. Any other text is not-a-number.
\<close>

definition isStrWhiteSpaceChar :: "char \<Rightarrow> bool" where
  "isStrWhiteSpaceChar c \<longleftrightarrow>
     (let n = (of_char c :: nat)
      in n = 9 \<or> n = 10 \<or> n = 11 \<or> n = 12 \<or> n = 13 \<or> n = 32 \<or> n = 160)"

definition trimString :: "string \<Rightarrow> string" where
  "trimString s =
     rev (dropWhile isStrWhiteSpaceChar (rev (dropWhile isStrWhiteSpaceChar s)))"

definition digitValue :: "char \<Rightarrow> nat option" where
  "digitValue c =
     (let n = (of_char c :: nat)
      in if 48 \<le> n \<and> n \<le> 57 then Some (n - 48)
         else if 97 \<le> n \<and> n \<le> 102 then Some (n - 87)
         else if 65 \<le> n \<and> n \<le> 70 then Some (n - 55)
         else None)"

definition isDigitOf :: "nat \<Rightarrow> char \<Rightarrow> bool" where
  "isDigitOf base c = (case digitValue c of None \<Rightarrow> False | Some v \<Rightarrow> v < base)"

definition digitsValue :: "nat \<Rightarrow> string \<Rightarrow> nat" where
  "digitsValue base s =
     foldl (\<lambda>acc c. acc * base + (case digitValue c of None \<Rightarrow> 0 | Some v \<Rightarrow> v)) 0 s"

definition isDigits :: "nat \<Rightarrow> string \<Rightarrow> bool" where
  "isDigits base s \<longleftrightarrow> s \<noteq> [] \<and> list_all (isDigitOf base) s"

definition NonDecimalIntegerLiteral :: "string \<Rightarrow> nat option" where
  "NonDecimalIntegerLiteral s =
     (case s of
        z # x # ds \<Rightarrow>
          (if z \<noteq> CHR ''0'' then None
           else if (x = CHR ''b'' \<or> x = CHR ''B'') \<and> isDigits 2 ds then Some (digitsValue 2 ds)
           else if (x = CHR ''o'' \<or> x = CHR ''O'') \<and> isDigits 8 ds then Some (digitsValue 8 ds)
           else if (x = CHR ''x'' \<or> x = CHR ''X'') \<and> isDigits 16 ds then Some (digitsValue 16 ds)
           else None)
      | _ \<Rightarrow> None)"

definition SignedInteger :: "string \<Rightarrow> int option" where
  "SignedInteger s =
     (case s of
        [] \<Rightarrow> None
      | c # r \<Rightarrow>
          (if c = CHR ''+'' then (if isDigits 10 r then Some (int (digitsValue 10 r)) else None)
           else if c = CHR ''-'' then (if isDigits 10 r then Some (- int (digitsValue 10 r)) else None)
           else if isDigits 10 s then Some (int (digitsValue 10 s)) else None))"

definition ExponentPart :: "string \<Rightarrow> int option" where
  "ExponentPart s =
     (case s of
        [] \<Rightarrow> Some 0
      | c # r \<Rightarrow> (if c = CHR ''e'' \<or> c = CHR ''E'' then SignedInteger r else None))"

definition scale10 :: "rat \<Rightarrow> int \<Rightarrow> rat" where
  "scale10 q e = (if 0 \<le> e then q * 10 ^ nat e else q / 10 ^ nat (- e))"

definition StrUnsignedDecimalLiteral :: "string \<Rightarrow> jsnum" where
  "StrUnsignedDecimalLiteral s =
     (if s = ''Infinity'' then Infinity False
      else
        let ip = takeWhile (isDigitOf 10) s;
            r1 = dropWhile (isDigitOf 10) s;
            fp = (case r1 of [] \<Rightarrow> [] | c # r \<Rightarrow>
                    if c = CHR ''.'' then takeWhile (isDigitOf 10) r else []);
            r2 = (case r1 of [] \<Rightarrow> [] | c # r \<Rightarrow>
                    if c = CHR ''.'' then dropWhile (isDigitOf 10) r else r1)
        in if ip = [] \<and> fp = [] then NaN
           else (case ExponentPart r2 of
                   None \<Rightarrow> NaN
                 | Some e \<Rightarrow>
                     roundToDouble (scale10 (of_nat (digitsValue 10 ip)
                                      + of_nat (digitsValue 10 fp) / 10 ^ length fp) e)))"

fun negate :: "jsnum \<Rightarrow> jsnum" where
  "negate NaN = NaN"
| "negate (Infinity s) = Infinity (\<not> s)"
| "negate (Finite q) = (if q = 0 then NegZero else Finite (- q))"
| "negate NegZero = Finite 0"

definition StrDecimalLiteral :: "string \<Rightarrow> jsnum" where
  "StrDecimalLiteral s =
     (case s of
        [] \<Rightarrow> NaN
      | c # r \<Rightarrow>
          (if c = CHR ''+'' then StrUnsignedDecimalLiteral r
           else if c = CHR ''-'' then negate (StrUnsignedDecimalLiteral r)
           else StrUnsignedDecimalLiteral s))"

definition js_Number :: "string \<Rightarrow> jsnum" where
  "js_Number str =
     (let s = trimString str
      in if s = [] then Finite 0
         else (case NonDecimalIntegerLiteral s of
                 Some n \<Rightarrow> roundToDouble (of_nat n)
               | None \<Rightarrow> StrDecimalLiteral s))"

section \<open>Schema definitions\<close>

datatype PrimitiveType = TString | TNumber | TBoolean

text \<open>
  \<open>LongDef\<close>: the optional flags are \<open>None\<close> when the property is absent; an absent
  \<open>default\<close> is \<open>JUndefined\<close>, which is also what \<open>default: undefined\<close> reads as.
\<close>

record LongDef =
  ltype :: PrimitiveType
  lrequired :: "bool option"
  ldefault :: jsval
  lnullable :: "bool option"
  ldescription :: "string option"

text \<open>\<open>ShortDef | LongDef\<close>: a primitive tag, an array of strings, or a descriptor.\<close>

datatype FieldDef = ShortPrimitive PrimitiveType | ShortEnum "string list" | Long LongDef

text \<open>
  \<open>EnvDef\<close>: the schema object, as the list of its own properties in the order they
  were created, which for an object literal is the order of declaration. An object has
  each key once.
\<close>

type_synonym EnvDef = "(string \<times> FieldDef) list"

text \<open>
  \<open>Object.keys(defs)\<close> with \<open>defs[key]\<close>: the keys that are array indices (canonical
  decimal numerals below \<open>2^32 - 1\<close>) come first, in ascending numeric order, and the
  other keys follow in the order of creation.
\<close>

definition isArrayIndex :: "string \<Rightarrow> bool" where
  "isArrayIndex k \<longleftrightarrow>
     isDigits 10 k \<and> (k = ''0'' \<or> hd k \<noteq> CHR ''0'') \<and> digitsValue 10 k < 2 ^ 32 - 1"

definition Object_keys :: "EnvDef \<Rightarrow> EnvDef" where
  "Object_keys defs =
     sort_key (\<lambda>kd. digitsValue 10 (fst kd)) (filter (\<lambda>kd. isArrayIndex (fst kd)) defs)
     @ filter (\<lambda>kd. \<not> isArrayIndex (fst kd)) defs"

text \<open>
  \<open>process.env\<close>: the variables of the environment, each a string. The read
  \<open>process.env[key]\<close> gives the variable when it is set; when it is not, the lookup goes
  on to \<open>Object.prototype\<close> and gives its member of that name, if there is one, and
  \<open>undefined\<close> otherwise.
\<close>

type_synonym ProcessEnv = "string \<rightharpoonup> string"

datatype RawValue = RawUndefined | RawString string | RawInherited string

definition objectPrototypeMembers :: "string list" where
  "objectPrototypeMembers =
     [''constructor'', ''hasOwnProperty'', ''isPrototypeOf'', ''propertyIsEnumerable'',
      ''toLocaleString'', ''toString'', ''valueOf'', ''__proto__'',
      ''__defineGetter__'', ''__defineSetter__'', ''__lookupGetter__'', ''__lookupSetter__'']"

definition envGet :: "ProcessEnv \<Rightarrow> string \<Rightarrow> RawValue" where
  "envGet penv k =
     (case penv k of
        Some s \<Rightarrow> RawString s
      | None \<Rightarrow> if List.member objectPrototypeMembers k then RawInherited k else RawUndefined)"

fun valueOfRaw :: "RawValue \<Rightarrow> jsval" where
  "valueOfRaw RawUndefined = JUndefined"
| "valueOfRaw (RawString s) = JStr s"
| "valueOfRaw (RawInherited m) = JInherited m"

text \<open>
  \<open>Number(raw)\<close>: an object or a function is converted through its string form
  (\<open>[object Object]\<close>, the text of the function), which is no numeric literal.
\<close>

fun Number_of :: "RawValue \<Rightarrow> jsnum" where
  "Number_of RawUndefined = NaN"
| "Number_of (RawString s) = js_Number s"
| "Number_of (RawInherited m) = NaN"

text \<open>\<open>values.includes(raw)\<close> on an array of strings.\<close>

fun array_includes :: "string list \<Rightarrow> RawValue \<Rightarrow> bool" where
  "array_includes vs (RawString s) = List.member vs s"
| "array_includes vs raw = False"

datatype NormalizedDef =
    Enum "string list" bool
  | Primitive PrimitiveType bool jsval "bool option"

text \<open>\<open>String(x)\<close> on an element of a \<open>readonly string[]\<close>.\<close>

definition js_String :: "string \<Rightarrow> string" where
  "js_String s = s"

fun normalizeDef :: "FieldDef \<Rightarrow> NormalizedDef" where
  "normalizeDef (ShortEnum d) = Enum (map js_String d) True"
| "normalizeDef (ShortPrimitive d) = Primitive d True JUndefined None"
| "normalizeDef (Long longDef) =
     Primitive (ltype longDef)
       (truthy (lrequired longDef) \<or> (if ldefault longDef = JUndefined then False else False))
       (ldefault longDef)
       (Some (truthy (lnullable longDef)))"

section \<open>Problems and errors\<close>

text \<open>
  A problem \<open>{key, message, value?}\<close>; \<open>pvalue\<close> is the optional \<open>value\<close>, the raw
  value that was rejected.
\<close>

record Problem =
  key :: string
  message :: string
  pvalue :: "RawValue option"

text \<open>
  What a call can throw: the \<open>EnvValidationError\<close>, which carries the problems it was
  constructed from (its message is \<open>buildMessage\<close> of the same list), or the runtime's
  \<open>TypeError\<close>.
\<close>

datatype Thrown = EnvValidationError "Problem list" | TypeError

text \<open>\<open>Array.prototype.join\<close>.\<close>

fun join :: "string \<Rightarrow> string list \<Rightarrow> string" where
  "join sep [] = []"
| "join sep [x] = x"
| "join sep (x # y # ys) = x @ sep @ join sep (y # ys)"

definition quoted :: "string \<Rightarrow> string" where
  "quoted v = [CHR 0x22] @ v @ [CHR 0x22]"

section \<open>Coercion\<close>

text \<open>
  What \<open>coerceValue\<close> returns: a value, or one of the two marker objects
  \<open>{__badNumber: raw}\<close> and \<open>{__badBoolean: raw}\<close>. The call \<open>raw.toLowerCase()\<close> throws
  a \<open>TypeError\<close> when \<open>raw\<close> is not a string.
\<close>

datatype Coerced = Val jsval | BadNumber RawValue | BadBoolean RawValue

fun coerceValue :: "RawValue \<Rightarrow> NormalizedDef \<Rightarrow> Thrown + Coerced" where
  "coerceValue raw (Enum vs req) =
     (if raw = RawUndefined then Inr (Val JUndefined) else Inr (Val (valueOfRaw raw)))"
| "coerceValue raw (Primitive t req dflt nl) =
     (if raw = RawUndefined
      then (if dflt = JUndefined then Inr (Val JUndefined) else Inr (Val dflt))
      else
        (case t of
           TString \<Rightarrow>
             if truthy nl \<and> raw = RawString ''null'' then Inr (Val JNull)
             else Inr (Val (valueOfRaw raw))
         | TNumber \<Rightarrow>
             (let n = Number_of raw
              in if isNaN n then Inr (BadNumber raw) else Inr (Val (JNum n)))
         | TBoolean \<Rightarrow>
             (case raw of
                RawString s \<Rightarrow>
                  (let lowered = toLowerCase s
                   in if List.member [''1'', ''true'', ''yes'', ''on''] lowered
                      then Inr (Val (JBool True))
                      else if List.member [''0'', ''false'', ''no'', ''off''] lowered
                      then Inr (Val (JBool False))
                      else Inr (BadBoolean raw))
              | _ \<Rightarrow> Inl TypeError)))"

section \<open>The result object and \<open>createEnv\<close>\<close>

text \<open>
  An object with own data properties, its prototype and the flag that \<open>Object.freeze\<close>
  sets. The result starts as \<open>{}\<close>, whose prototype is \<open>Object.prototype\<close>.
\<close>

datatype Prototype = ObjectPrototype | NullPrototype | FunctionPrototype string

record JsObject =
  props :: "string \<rightharpoonup> jsval"
  proto :: Prototype
  frozen :: bool

definition emptyObject :: JsObject where
  "emptyObject = \<lparr>props = Map.empty, proto = ObjectPrototype, frozen = False\<rparr>"

definition Object_freeze :: "JsObject \<Rightarrow> JsObject" where
  "Object_freeze obj = obj\<lparr>frozen := True\<rparr>"

text \<open>
  The assignment \<open>obj[k] = v\<close> on an object that is not frozen. It creates or updates
  the own property \<open>k\<close>, but for one key: while the object inherits the accessor
  \<open>__proto__\<close> and has no own property of that name, the assignment runs the setter,
  which creates no property. The setter makes an object or \<open>null\<close> the prototype and
  ignores every other value. (\<open>createEnv\<close> assigns no function under \<open>__proto__\<close>, so
  what else an object would inherit from a function does not come into play.)
\<close>

fun asPrototype :: "jsval \<Rightarrow> Prototype option" where
  "asPrototype JNull = Some NullPrototype"
| "asPrototype (JInherited m) =
     Some (if m = ''__proto__'' then ObjectPrototype else FunctionPrototype m)"
| "asPrototype v = None"

definition runsProtoSetter :: "JsObject \<Rightarrow> string \<Rightarrow> bool" where
  "runsProtoSetter obj k \<longleftrightarrow>
     k = ''__proto__'' \<and> props obj k = None \<and> proto obj \<noteq> NullPrototype"

definition setProperty :: "JsObject \<Rightarrow> string \<Rightarrow> jsval \<Rightarrow> JsObject" where
  "setProperty obj k v =
     (if runsProtoSetter obj k
      then (case asPrototype v of None \<Rightarrow> obj | Some p \<Rightarrow> obj\<lparr>proto := p\<rparr>)
      else obj\<lparr>props := (props obj)(k \<mapsto> v)\<rparr>)"

text \<open>The two accumulators of the loop in \<open>createEnv\<close>.\<close>

record LoopState =
  problems :: "Problem list"
  result :: JsObject

definition push :: "LoopState \<Rightarrow> Problem \<Rightarrow> LoopState" where
  "push st p = st\<lparr>problems := problems st @ [p]\<rparr>"

definition assign :: "LoopState \<Rightarrow> string \<Rightarrow> jsval \<Rightarrow> LoopState" where
  "assign st k v = st\<lparr>result := setProperty (result st) k v\<rparr>"

text \<open>
  One iteration of \<open>for (const key of Object.keys(defs))\<close>: \<open>Inl\<close> when the iteration
  throws, \<open>Inr\<close> the state after it otherwise.
\<close>

definition loopBody :: "ProcessEnv \<Rightarrow> LoopState \<Rightarrow> string \<times> FieldDef \<Rightarrow> Thrown + LoopState" where
  "loopBody penv st kd =
     (let k = fst kd;
          rawDef = snd kd;
          normalized = normalizeDef rawDef;
          rawValue = envGet penv k
      in case normalized of
           Enum vs req \<Rightarrow>
             (if rawValue = RawUndefined
              then Inr (push st \<lparr>key = k,
                     message = ''is missing (enum: allowed '' @ join '', '' (map quoted vs) @ '')'',
                     pvalue = None\<rparr>)
              else if \<not> array_includes vs rawValue
              then Inr (push st \<lparr>key = k,
                     message = ''must be one of: '' @ join '', '' vs,
                     pvalue = Some rawValue\<rparr>)
              else Inr (assign st k (valueOfRaw rawValue)))
         | Primitive t req dflt nl \<Rightarrow>
             (case coerceValue rawValue normalized of
                Inl thrown \<Rightarrow> Inl thrown
              | Inr (BadNumber bad) \<Rightarrow>
                  Inr (push st \<lparr>key = k, message = ''is not a valid number'',
                         pvalue = Some bad\<rparr>)
              | Inr (BadBoolean bad) \<Rightarrow>
                  Inr (push st \<lparr>key = k, message = ''is not a valid boolean'',
                         pvalue = Some bad\<rparr>)
              | Inr (Val coerced) \<Rightarrow>
                  (let hasDefault = (dflt \<noteq> JUndefined);
                       provided = (rawValue \<noteq> RawUndefined \<or> hasDefault \<or> truthy nl)
                   in if \<not> provided \<and> req
                      then Inr (push st \<lparr>key = k, message = ''is required but missing'',
                             pvalue = None\<rparr>)
                      else Inr (assign st k coerced))))"

definition initialState :: LoopState where
  "initialState = \<lparr>problems = [], result = emptyObject\<rparr>"

text \<open>The loop: it ends at the first iteration that throws.\<close>

fun runLoop :: "ProcessEnv \<Rightarrow> LoopState \<Rightarrow> EnvDef \<Rightarrow> Thrown + LoopState" where
  "runLoop penv st [] = Inr st"
| "runLoop penv st (kd # rest) =
     (case loopBody penv st kd of
        Inl thrown \<Rightarrow> Inl thrown
      | Inr st' \<Rightarrow> runLoop penv st' rest)"

text \<open>
  \<open>createEnv\<close>: \<open>Inl\<close> is what the call throws, \<open>Inr\<close> the frozen object it returns.
  \<open>process.env\<close> is the first argument.
\<close>

definition createEnv :: "ProcessEnv \<Rightarrow> EnvDef \<Rightarrow> Thrown + JsObject" where
  "createEnv penv defs =
     (case runLoop penv initialState (Object_keys defs) of
        Inl thrown \<Rightarrow> Inl thrown
      | Inr st \<Rightarrow>
          if length (problems st) > 0 then Inl (EnvValidationError (problems st))
          else Inr (Object_freeze (result st)))"

subsection \<open>Mutation attempts on an object\<close>

text \<open>
  The ways a caller can try to change an own property: assignment \<open>o[k] = v\<close>,
  \<open>delete o[k]\<close> and \<open>Object.defineProperty(o, k, {value: v})\<close>. The outcome is whether
  a \<open>TypeError\<close> was thrown, and the object afterwards. On a frozen object an assignment
  and the deletion of an existing property throw in strict code and do nothing in sloppy
  code; \<open>defineProperty\<close> throws unless it would change nothing; an assignment that runs
  the \<open>__proto__\<close> setter throws when it would change the prototype.
\<close>

datatype Mutation = Assign string jsval | Delete string | DefineProperty string jsval

fun mutate :: "bool \<Rightarrow> Mutation \<Rightarrow> JsObject \<Rightarrow> bool \<times> JsObject" where
  "mutate strict (Assign k v) obj =
     (if frozen obj
      then (if runsProtoSetter obj k
            then (case asPrototype v of None \<Rightarrow> (False, obj) | Some p \<Rightarrow> (p \<noteq> proto obj, obj))
            else (strict, obj))
      else (False, setProperty obj k v))"
| "mutate strict (Delete k) obj =
     (if frozen obj then (strict \<and> props obj k \<noteq> None, obj)
      else (False, obj\<lparr>props := (props obj)(k := None)\<rparr>))"
| "mutate strict (DefineProperty k v) obj =
     (if frozen obj then (props obj k \<noteq> Some v, obj)
      else (False, obj\<lparr>props := (props obj)(k \<mapsto> v)\<rparr>))"

fun mutateAll :: "bool \<Rightarrow> Mutation list \<Rightarrow> JsObject \<Rightarrow> JsObject" where
  "mutateAll strict [] obj = obj"
| "mutateAll strict (m # ms) obj = mutateAll strict ms (snd (mutate strict m obj))"

section \<open>The specification's notions\<close>

text \<open>
  The specification's canonical forms: \<open>EnumField {values, required}\<close> and
  \<open>PrimitiveField {type, required, default, nullable}\<close>, with its normalization rules.
\<close>

datatype SpecField =
    EnumField "string list" bool
  | PrimitiveField PrimitiveType bool jsval bool

fun spec_normalize :: "FieldDef \<Rightarrow> SpecField" where
  "spec_normalize (ShortEnum vs) = EnumField vs True"
| "spec_normalize (ShortPrimitive t) = PrimitiveField t True JUndefined False"
| "spec_normalize (Long l) =
     PrimitiveField (ltype l) (lrequired l = Some True) (ldefault l) (lnullable l = Some True)"

text \<open>
  How a \<open>NormalizedDef\<close> of the code reads as a canonical form of the specification: the
  optional \<open>nullable\<close> property is read through its truthiness, as the code reads it.
\<close>

fun abstractDef :: "NormalizedDef \<Rightarrow> SpecField" where
  "abstractDef (Enum vs req) = EnumField vs req"
| "abstractDef (Primitive t req dflt nl) = PrimitiveField t req dflt (truthy nl)"

text \<open>
  A case-insensitive match, said without \<open>toLowerCase\<close>: the two strings have the same
  length and agree position by position up to the case of the letters \<open>A\<close>..\<open>Z\<close>.
\<close>

definition isAsciiLetter :: "char \<Rightarrow> bool" where
  "isAsciiLetter c \<longleftrightarrow>
     (let n = (of_char c :: nat) in (65 \<le> n \<and> n \<le> 90) \<or> (97 \<le> n \<and> n \<le> 122))"

definition sameIgnoringCase :: "char \<Rightarrow> char \<Rightarrow> bool" where
  "sameIgnoringCase c d \<longleftrightarrow>
     c = d \<or> (isAsciiLetter c \<and> isAsciiLetter d \<and>
               ((of_char c :: nat) + 32 = of_char d \<or> (of_char d :: nat) + 32 = of_char c))"

definition matchesIgnoringCase :: "string \<Rightarrow> string \<Rightarrow> bool" where
  "matchesIgnoringCase s w = list_all2 sameIgnoringCase s w"

definition truthyWords :: "string list" where
  "truthyWords = [''1'', ''true'', ''yes'', ''on'']"

definition falsyWords :: "string list" where
  "falsyWords = [''0'', ''false'', ''no'', ''off'']"

definition matchesAny :: "string \<Rightarrow> string list \<Rightarrow> bool" where
  "matchesAny s ws = list_ex (matchesIgnoringCase s) ws"

text \<open>
  The per-field evaluation the specification describes, on a raw value that is a string
  or absent: the problem of the field, or its resolved value.
\<close>

fun spec_evaluate :: "string option \<Rightarrow> string \<Rightarrow> SpecField \<Rightarrow> Problem + jsval" where
  "spec_evaluate raw k (EnumField vs req) =
     (case raw of
        None \<Rightarrow> Inl \<lparr>key = k,
                  message = ''is missing (enum: allowed '' @ join '', '' (map quoted vs) @ '')'',
                  pvalue = None\<rparr>
      | Some r \<Rightarrow>
          if r \<in> set vs then Inr (JStr r)
          else Inl \<lparr>key = k, message = ''must be one of: '' @ join '', '' vs,
                 pvalue = Some (RawString r)\<rparr>)"
| "spec_evaluate None k (PrimitiveField t req dflt nl) =
     (if req \<and> dflt = JUndefined \<and> \<not> nl
      then Inl \<lparr>key = k, message = ''is required but missing'', pvalue = None\<rparr>
      else Inr dflt)"
| "spec_evaluate (Some r) k (PrimitiveField TString req dflt nl) =
     (if nl \<and> r = ''null'' then Inr JNull else Inr (JStr r))"
| "spec_evaluate (Some r) k (PrimitiveField TNumber req dflt nl) =
     (if isNaN (js_Number r)
      then Inl \<lparr>key = k, message = ''is not a valid number'', pvalue = Some (RawString r)\<rparr>
      else Inr (JNum (js_Number r)))"
| "spec_evaluate (Some r) k (PrimitiveField TBoolean req dflt nl) =
     (if matchesAny r truthyWords then Inr (JBool True)
      else if matchesAny r falsyWords then Inr (JBool False)
      else Inl \<lparr>key = k, message = ''is not a valid boolean'', pvalue = Some (RawString r)\<rparr>)"

text \<open>Auxiliary notions for the proofs.\<close>

definition isLowerOrDigit :: "char \<Rightarrow> bool" where
  "isLowerOrDigit d \<longleftrightarrow>
     (let n = (of_char d :: nat) in (97 \<le> n \<and> n \<le> 122) \<or> (48 \<le> n \<and> n \<le> 57))"

definition outcome :: "LoopState \<Rightarrow> string \<Rightarrow> Problem + jsval \<Rightarrow> LoopState" where
  "outcome st k r = (case r of Inl p \<Rightarrow> push st p | Inr v \<Rightarrow> assign st k v)"

text \<open>
  The problem of a declared field, if it fails, and the problems of a list of fields: one
  for each failing field, in the order of the list.
\<close>

definition spec_problem :: "ProcessEnv \<Rightarrow> string \<times> FieldDef \<Rightarrow> Problem option" where
  "spec_problem penv kd =
     (case spec_evaluate (penv (fst kd)) (fst kd) (spec_normalize (snd kd)) of
        Inl p \<Rightarrow> Some p
      | Inr v \<Rightarrow> None)"

definition spec_problems :: "ProcessEnv \<Rightarrow> EnvDef \<Rightarrow> Problem list" where
  "spec_problems penv defs = List.map_filter (spec_problem penv) defs"

text \<open>A field whose external value satisfies every constraint of its declaration.\<close>

fun satisfiesConstraints :: "string option \<Rightarrow> SpecField \<Rightarrow> bool" where
  "satisfiesConstraints raw (EnumField vs req) =
     (case raw of None \<Rightarrow> False | Some r \<Rightarrow> r \<in> set vs)"
| "satisfiesConstraints None (PrimitiveField t req dflt nl) =
     (dflt \<noteq> JUndefined \<or> nl \<or> \<not> req)"
| "satisfiesConstraints (Some r) (PrimitiveField TString req dflt nl) = True"
| "satisfiesConstraints (Some r) (PrimitiveField TNumber req dflt nl) =
     (\<not> isNaN (js_Number r))"
| "satisfiesConstraints (Some r) (PrimitiveField TBoolean req dflt nl) =
     (matchesAny r truthyWords \<or> matchesAny r falsyWords)"


text \<open>
  A key whose read from \<open>process.env\<close> is its variable or \<open>undefined\<close>, and not a member
  of \<open>Object.prototype\<close>.
\<close>

definition readsVariable :: "ProcessEnv \<Rightarrow> string \<Rightarrow> bool" where
  "readsVariable penv k \<longleftrightarrow>
     envGet penv k = (case penv k of None \<Rightarrow> RawUndefined | Some s \<Rightarrow> RawString s)"

section \<open>The loop of \<open>createEnv\<close> against the specification\<close>

text \<open>
  For a key that is read as its variable, one iteration does what the specification says of
  the field; over a schema all of whose keys are read so, the loop collects the problems of
  the failing fields in the order of \<open>Object.keys\<close>.
\<close>

lemma map_js_String: "map js_String xs = xs"
  by (induction xs) (simp_all add: js_String_def)

lemma truthy_eq: "truthy b \<longleftrightarrow> b = Some True"
  by (cases b) auto

lemma abstract_normalize: "abstractDef (normalizeDef d) = spec_normalize d"
  by (cases d) (simp_all add: map_js_String truthy_eq)

lemma of_char_plus32:
  "(of_char c :: nat) + 32 < 256 \<Longrightarrow> char_of ((of_char c :: nat) + 32) = d \<longleftrightarrow> (of_char c :: nat) + 32 = of_char d"
  by (simp add: char_of_eq_iff take_bit_nat_eq_self)

lemma lowerChar_same:
  assumes "isLowerOrDigit d"
  shows "lowerChar c = d \<longleftrightarrow> sameIgnoringCase c d"
proof (cases "isUpper c")
  case True
  then have b: "(of_char c :: nat) + 32 < 256"
    by (auto simp: isUpper_def Let_def)
  have ne: "c \<noteq> d" using True assms by (auto simp: isUpper_def isLowerOrDigit_def Let_def)
  show ?thesis
    using True assms ne of_char_plus32[OF b, of d]
    by (auto simp: lowerChar_def sameIgnoringCase_def isAsciiLetter_def isUpper_def
        isLowerOrDigit_def Let_def)
next
  case False
  then show ?thesis
    using assms
    by (auto simp: lowerChar_def sameIgnoringCase_def isAsciiLetter_def isUpper_def
        isLowerOrDigit_def Let_def)
qed

lemma toLowerCase_matches:
  "list_all isLowerOrDigit w \<Longrightarrow> toLowerCase s = w \<longleftrightarrow> matchesIgnoringCase s w"
proof (induction s arbitrary: w)
  case Nil
  then show ?case by (auto simp: toLowerCase_def matchesIgnoringCase_def)
next
  case (Cons c s)
  show ?case
  proof (cases w)
    case Nil
    then show ?thesis by (simp add: toLowerCase_def matchesIgnoringCase_def)
  next
    case (Cons d w')
    with Cons.prems have d: "isLowerOrDigit d" and w': "list_all isLowerOrDigit w'" by simp_all
    from Cons.IH[OF w'] lowerChar_same[OF d, of c] Cons show ?thesis
      by (simp add: toLowerCase_def matchesIgnoringCase_def)
  qed
qed

lemma member_truthy:
  "List.member [''1'', ''true'', ''yes'', ''on''] (toLowerCase s) = matchesAny s truthyWords"
proof -
  have "toLowerCase s = ''1'' \<longleftrightarrow> matchesIgnoringCase s ''1''"
       "toLowerCase s = ''true'' \<longleftrightarrow> matchesIgnoringCase s ''true''"
       "toLowerCase s = ''yes'' \<longleftrightarrow> matchesIgnoringCase s ''yes''"
       "toLowerCase s = ''on'' \<longleftrightarrow> matchesIgnoringCase s ''on''"
    by (rule toLowerCase_matches, simp add: isLowerOrDigit_def)+
  then show ?thesis
    by (auto simp: matchesAny_def truthyWords_def)
qed

lemma member_falsy:
  "List.member [''0'', ''false'', ''no'', ''off''] (toLowerCase s) = matchesAny s falsyWords"
proof -
  have "toLowerCase s = ''0'' \<longleftrightarrow> matchesIgnoringCase s ''0''"
       "toLowerCase s = ''false'' \<longleftrightarrow> matchesIgnoringCase s ''false''"
       "toLowerCase s = ''no'' \<longleftrightarrow> matchesIgnoringCase s ''no''"
       "toLowerCase s = ''off'' \<longleftrightarrow> matchesIgnoringCase s ''off''"
    by (rule toLowerCase_matches, simp add: isLowerOrDigit_def)+
  then show ?thesis
    by (auto simp: matchesAny_def falsyWords_def)
qed

lemma envGet_Some: "penv k = Some s \<Longrightarrow> envGet penv k = RawString s"
  by (simp add: envGet_def)

lemma readsVariable_Some: "penv k = Some s \<Longrightarrow> readsVariable penv k"
  by (simp add: readsVariable_def envGet_def)


lemma readsVariable_None:
  "readsVariable penv k \<Longrightarrow> penv k = None \<Longrightarrow> envGet penv k = RawUndefined"
  by (simp add: readsVariable_def)

lemma coerceValue_boolean:
  "coerceValue (RawString r) (Primitive TBoolean req dflt nl) =
     (if matchesAny r truthyWords then Inr (Val (JBool True))
      else if matchesAny r falsyWords then Inr (Val (JBool False))
      else Inr (BadBoolean (RawString r)))"
  by (simp only: coerceValue.simps PrimitiveType.case RawValue.case RawValue.distinct
      if_False Let_def member_truthy member_falsy)

lemma coerceValue_number:
  "coerceValue (RawString r) (Primitive TNumber req dflt nl) =
     (if isNaN (js_Number r) then Inr (BadNumber (RawString r)) else Inr (Val (JNum (js_Number r))))"
  by (simp add: Let_def)

lemma coerceValue_string:
  "coerceValue (RawString r) (Primitive TString req dflt nl) =
     (if truthy nl \<and> r = ''null'' then Inr (Val JNull) else Inr (Val (JStr r)))"
  by simp

lemma coerceValue_absent: "coerceValue RawUndefined (Primitive t req dflt nl) = Inr (Val dflt)"
  by simp

lemmas coerceValue_cases =
  coerceValue_absent coerceValue_string coerceValue_number coerceValue_boolean

lemma loopBody_spec:
  assumes "readsVariable penv k"
  shows "loopBody penv st (k, d) =
           Inr (outcome st k (spec_evaluate (penv k) k (spec_normalize d)))"
proof (cases "penv k")
  case None
  with assms have raw: "envGet penv k = RawUndefined" by (rule readsVariable_None)
  show ?thesis
  proof (cases d)
    case (ShortEnum vs)
    then show ?thesis
      by (simp add: loopBody_def outcome_def raw None comp_def js_String_def)
  next
    case (ShortPrimitive t)
    then show ?thesis
      by (simp add: loopBody_def outcome_def raw None coerceValue_cases del: coerceValue.simps)
  next
    case (Long l)
    then show ?thesis
      by (simp add: loopBody_def outcome_def raw None coerceValue_cases truthy_eq
          del: coerceValue.simps)
  qed
next
  case (Some r)
  then have raw: "envGet penv k = RawString r" by (rule envGet_Some)
  show ?thesis
  proof (cases d)
    case (ShortEnum vs)
    then show ?thesis
      by (simp add: loopBody_def outcome_def raw Some map_js_String comp_def js_String_def)
  next
    case (ShortPrimitive t)
    then show ?thesis
      by (cases t)
         (simp_all add: loopBody_def outcome_def raw Some coerceValue_cases
            del: coerceValue.simps)
  next
    case (Long l)
    then show ?thesis
      by (cases "ltype l")
         (simp_all add: loopBody_def outcome_def raw Some coerceValue_cases truthy_eq
            del: coerceValue.simps)
  qed
qed

lemma runLoop_problems:
  assumes "\<forall>kd \<in> set kds. readsVariable penv (fst kd)"
  shows "\<exists>st'. runLoop penv st kds = Inr st' \<and>
               problems st' = problems st @ spec_problems penv kds"
  using assms
proof (induction kds arbitrary: st)
  case Nil
  then show ?case by (simp add: spec_problems_def)
next
  case (Cons kd kds)
  obtain k d where kd: "kd = (k, d)" by (cases kd)
  from Cons.prems have r: "readsVariable penv k"
    and rest: "\<forall>kd \<in> set kds. readsVariable penv (fst kd)" by (simp_all add: kd)
  let ?st = "outcome st k (spec_evaluate (penv k) k (spec_normalize d))"
  from Cons.IH[OF rest, of ?st] obtain st' where
    st': "runLoop penv ?st kds = Inr st'" "problems st' = problems ?st @ spec_problems penv kds"
    by blast
  have "problems ?st @ spec_problems penv kds = problems st @ spec_problems penv (kd # kds)"
    by (cases "spec_evaluate (penv k) k (spec_normalize d)")
       (simp_all add: kd outcome_def push_def assign_def spec_problems_def spec_problem_def)
  with st' show ?case
    by (simp add: kd loopBody_spec[OF r])
qed

lemma set_Object_keys: "set (Object_keys defs) = set defs"
  by (auto simp: Object_keys_def)

lemma Object_keys_single: "Object_keys [(k, d)] = [(k, d)]"
  by (simp add: Object_keys_def)

lemma Object_keys_no_index:
  "\<forall>kd \<in> set defs. \<not> isArrayIndex (fst kd) \<Longrightarrow> Object_keys defs = defs"
  by (simp add: Object_keys_def filter_empty_conv[THEN iffD2])

lemma spec_problems_empty:
  "spec_problems penv defs = [] \<longleftrightarrow> (\<forall>kd \<in> set defs. spec_problem penv kd = None)"
  by (induction defs) (auto simp: spec_problems_def split: option.splits)

lemma set_spec_problems:
  "set (spec_problems penv defs) = {p. \<exists>kd \<in> set defs. spec_problem penv kd = Some p}"
  by (induction defs) (auto simp: spec_problems_def split: option.splits)

lemma createEnv_spec:
  assumes "\<forall>kd \<in> set defs. readsVariable penv (fst kd)"
  shows "\<exists>st. runLoop penv initialState (Object_keys defs) = Inr st \<and>
           problems st = spec_problems penv (Object_keys defs) \<and>
           createEnv penv defs =
             (if spec_problems penv (Object_keys defs) = []
              then Inr (Object_freeze (result st))
              else Inl (EnvValidationError (spec_problems penv (Object_keys defs))))"
proof -
  from assms have "\<forall>kd \<in> set (Object_keys defs). readsVariable penv (fst kd)"
    by (simp add: set_Object_keys)
  from runLoop_problems[OF this, of initialState] obtain st where
    st: "runLoop penv initialState (Object_keys defs) = Inr st"
        "problems st = spec_problems penv (Object_keys defs)"
    by (auto simp: initialState_def)
  then show ?thesis
    by (simp add: createEnv_def)
qed

lemma createEnv_single:
  assumes "readsVariable penv k"
  shows "createEnv penv [(k, d)] =
     (case spec_evaluate (penv k) k (spec_normalize d) of
        Inl p \<Rightarrow> Inl (EnvValidationError [p])
      | Inr v \<Rightarrow> Inr (Object_freeze (setProperty emptyObject k v)))"
  by (cases "spec_evaluate (penv k) k (spec_normalize d)")
     (simp_all add: createEnv_def Object_keys_single loopBody_spec[OF assms] outcome_def
        push_def assign_def initialState_def)

lemma freeze_setProperty:
  "k \<noteq> ''__proto__'' \<Longrightarrow>
   Object_freeze (setProperty emptyObject k v) =
     \<lparr>props = [k \<mapsto> v], proto = ObjectPrototype, frozen = True\<rparr>"
  by (simp add: Object_freeze_def setProperty_def runsProtoSetter_def emptyObject_def)

lemma normalize_primitive:
  "normalizeDef d = Primitive t req dflt nl \<Longrightarrow>
   spec_normalize d = PrimitiveField t req dflt (truthy nl)"
  using abstract_normalize[of d] by simp

lemma truthy_not_falsy: "matchesAny r truthyWords \<Longrightarrow> \<not> matchesAny r falsyWords"
  unfolding member_truthy[symmetric] member_falsy[symmetric] by auto

lemmas js_Number_eval =
  js_Number_def trimString_def isStrWhiteSpaceChar_def
  NonDecimalIntegerLiteral_def StrDecimalLiteral_def StrUnsignedDecimalLiteral_def
  isDigitOf_def digitValue_def ExponentPart_def digitsValue_def scale10_def
  roundToDouble_def binaryExponent_def pow2_def roundHalfEven_def compute_bitlen

lemma js_Number_4000: "js_Number ''4000'' = Finite 4000"
  by (simp add: js_Number_eval)

lemma js_Number_notanumber: "js_Number ''notanumber'' = NaN"
  by (simp add: js_Number_eval)

lemma js_Number_null: "js_Number ''null'' = NaN"
  by (simp add: js_Number_eval)

lemma trimString_blank:
  assumes "list_all isStrWhiteSpaceChar s"
  shows "trimString s = []"
proof -
  from assms have blank: "dropWhile isStrWhiteSpaceChar s = []"
    by (induction s) simp_all
  show ?thesis unfolding trimString_def blank by simp
qed

lemma js_Number_blank: "list_all isStrWhiteSpaceChar s \<Longrightarrow> js_Number s = Finite 0"
  by (simp add: js_Number_def trimString_blank)

lemma null_not_boolean:
  "\<not> matchesAny ''null'' truthyWords" "\<not> matchesAny ''null'' falsyWords"
  unfolding member_truthy[symmetric] member_falsy[symmetric]
  by (simp_all add: toLowerCase_def lowerChar_def isUpper_def)

lemmas key_eval =
  envGet_def objectPrototypeMembers_def Object_keys_def isArrayIndex_def isDigits_def
  isDigitOf_def digitValue_def digitsValue_def

lemma runLoop_result_dom:
  assumes "\<forall>kd \<in> set kds. readsVariable penv (fst kd)"
    and "''__proto__'' \<notin> fst ` set kds"
    and "runLoop penv st kds = Inr st'"
  shows "dom (props (result st')) =
           dom (props (result st)) \<union> fst ` {kd \<in> set kds. spec_problem penv kd = None}"
  using assms
proof (induction kds arbitrary: st)
  case Nil
  then show ?case by simp
next
  case (Cons kd kds)
  obtain k d where kd: "kd = (k, d)" by (cases kd)
  from Cons.prems have r: "readsVariable penv k" and k: "k \<noteq> ''__proto__''"
    and rest: "\<forall>kd \<in> set kds. readsVariable penv (fst kd)" "''__proto__'' \<notin> fst ` set kds"
    by (auto simp: kd)
  let ?st = "outcome st k (spec_evaluate (penv k) k (spec_normalize d))"
  from Cons.prems(3) have run: "runLoop penv ?st kds = Inr st'"
    by (simp add: kd loopBody_spec[OF r])
  have step: "dom (props (result ?st)) =
                dom (props (result st)) \<union> (if spec_problem penv kd = None then {k} else {})"
    using k
    by (cases "spec_evaluate (penv k) k (spec_normalize d)")
       (auto simp: kd outcome_def push_def assign_def spec_problem_def setProperty_def
          runsProtoSetter_def)
  show ?case
    unfolding Cons.IH[OF rest run] step
    by (auto simp: kd image_iff) force+
qed

lemma satisfies_no_problem:
  "satisfiesConstraints (penv k) (spec_normalize d) \<longleftrightarrow> spec_problem penv (k, d) = None"
proof (cases "spec_normalize d")
  case (EnumField vs req)
  then show ?thesis by (cases "penv k") (simp_all add: spec_problem_def)
next
  case (PrimitiveField t req dflt nl)
  then show ?thesis
    by (cases "penv k"; cases t) (auto simp: spec_problem_def)
qed

text \<open>
  Away from the members of \<open>Object.prototype\<close>: when every key is read as its variable
  and none is \<open>__proto__\<close>, valid fields give an object with exactly the declared keys,
  and the problem \<open>is required but missing\<close> is raised for exactly the required
  primitive fields with no variable, no default and \<open>nullable\<close> not set.
\<close>

lemma valid_keys_of_variables:
  assumes "\<forall>kd \<in> set defs. readsVariable penv (fst kd)"
    and "''__proto__'' \<notin> fst ` set defs"
    and "\<forall>kd \<in> set defs. satisfiesConstraints (penv (fst kd)) (spec_normalize (snd kd))"
  shows "\<exists>obj. createEnv penv defs = Inr obj \<and> dom (props obj) = fst ` set defs"
proof -
  from assms(3) have none: "\<forall>kd \<in> set defs. spec_problem penv kd = None"
    using satisfies_no_problem[of penv] by (metis prod.collapse)
  then have empty: "spec_problems penv (Object_keys defs) = []"
    by (simp add: spec_problems_empty set_Object_keys)
  from createEnv_spec[OF assms(1)] empty obtain st where
    st: "runLoop penv initialState (Object_keys defs) = Inr st"
        "createEnv penv defs = Inr (Object_freeze (result st))"
    by auto
  have "dom (props (result st)) =
          dom (props (result initialState)) \<union>
          fst ` {kd \<in> set (Object_keys defs). spec_problem penv kd = None}"
    using assms(1,2) st(1) by (intro runLoop_result_dom) (simp_all add: set_Object_keys)
  also have "\<dots> = fst ` set defs"
    using none by (auto simp: set_Object_keys initialState_def emptyObject_def)
  finally show ?thesis
    using st(2) by (simp add: Object_freeze_def)
qed

lemma required_check_of_variables:
  assumes "\<forall>kd \<in> set defs. readsVariable penv (fst kd)"
    and "createEnv penv defs = Inl (EnvValidationError ps)"
  shows "(\<forall>p \<in> set ps. message p = ''is required but missing'' \<longrightarrow>
            pvalue p = None \<and>
            (\<exists>d t. (key p, d) \<in> set defs \<and> penv (key p) = None \<and>
                   spec_normalize d = PrimitiveField t True JUndefined False)) \<and>
         (\<forall>k d t. (k, d) \<in> set defs \<and> penv k = None \<and>
                  spec_normalize d = PrimitiveField t True JUndefined False \<longrightarrow>
            \<lparr>key = k, message = ''is required but missing'', pvalue = None\<rparr> \<in> set ps)"
proof -
  from createEnv_spec[OF assms(1)] assms(2) have ps: "ps = spec_problems penv (Object_keys defs)"
    by (auto split: if_splits)
  have only: "pvalue p = None \<and> penv k = None \<and> key p = k \<and>
              (\<exists>t. spec_normalize d = PrimitiveField t True JUndefined False)"
    if "spec_problem penv (k, d) = Some p" "message p = ''is required but missing''" for k d p
  proof (cases "spec_normalize d")
    case (EnumField vs req)
    with that show ?thesis
      by (cases "penv k") (auto simp: spec_problem_def split: if_splits)
  next
    case (PrimitiveField t req dflt nl)
    with that show ?thesis
      by (cases "penv k"; cases t) (auto simp: spec_problem_def split: if_splits)
  qed
  have a: "pvalue p = None \<and>
           (\<exists>d t. (key p, d) \<in> set defs \<and> penv (key p) = None \<and>
                  spec_normalize d = PrimitiveField t True JUndefined False)"
    if "p \<in> set ps" "message p = ''is required but missing''" for p
  proof -
    from that(1) obtain k d where kd: "(k, d) \<in> set defs" "spec_problem penv (k, d) = Some p"
      by (auto simp: ps set_spec_problems set_Object_keys)
    from only[OF kd(2) that(2)] kd(1) show ?thesis by auto
  qed
  have b: "\<lparr>key = k, message = ''is required but missing'', pvalue = None\<rparr> \<in> set ps"
    if "(k, d) \<in> set defs" "penv k = None"
       "spec_normalize d = PrimitiveField t True JUndefined False" for k d t
  proof -
    from that(2,3) have "spec_problem penv (k, d) =
        Some \<lparr>key = k, message = ''is required but missing'', pvalue = None\<rparr>"
      by (simp add: spec_problem_def)
    with that(1) show ?thesis by (force simp: ps set_spec_problems set_Object_keys)
  qed
  from a b show ?thesis by blast
qed

section \<open>The claims\<close>

text \<open>
  In the statements below \<open>Object_freeze (setProperty emptyObject k v)\<close> is the frozen
  object that \<open>{}[k] = v\<close> gives. By \<open>freeze_setProperty\<close> it is the object whose one
  own property is \<open>k\<close> with the value \<open>v\<close>, for every key but \<open>__proto__\<close>; the
  instances show it written out.
\<close>

text \<open>
  C1. The claim: when every declared field satisfies its constraints, \<open>createEnv\<close>
  returns and the keys of the returned object are exactly the declared field names. The
  code does not keep it for keys that name a member of \<open>Object.prototype\<close>. An optional
  boolean field \<open>constructor\<close> with no variable set satisfies its constraints, but the
  read \<open>process.env[key]\<close> gives the inherited function and \<open>raw.toLowerCase()\<close> throws
  a \<open>TypeError\<close>. A string field \<open>__proto__\<close> with the variable set to \<open>abc\<close> satisfies
  its constraints, but \<open>result[key] = coerced\<close> runs the prototype setter, and the
  returned object has no key at all.
\<close>

theorem createEnv_inherited_keys:
  "satisfiesConstraints (Map.empty ''constructor'')
     (spec_normalize (Long \<lparr>ltype = TBoolean, lrequired = None, ldefault = JUndefined,
        lnullable = None, ldescription = None\<rparr>)) \<and>
   createEnv Map.empty
     [(''constructor'', Long \<lparr>ltype = TBoolean, lrequired = None, ldefault = JUndefined,
        lnullable = None, ldescription = None\<rparr>)] = Inl TypeError \<and>
   satisfiesConstraints ([''__proto__'' \<mapsto> ''abc''] ''__proto__'')
     (spec_normalize (ShortPrimitive TString)) \<and>
   createEnv [''__proto__'' \<mapsto> ''abc''] [(''__proto__'', ShortPrimitive TString)]
     = Inr \<lparr>props = Map.empty, proto = ObjectPrototype, frozen = True\<rparr>"
  by (simp add: createEnv_def Object_keys_single loopBody_def envGet_def Let_def
      objectPrototypeMembers_def initialState_def emptyObject_def assign_def setProperty_def
      runsProtoSetter_def Object_freeze_def)

text \<open>
  C2, amended. Over a schema none of whose keys is read from \<open>Object.prototype\<close>,
  \<open>createEnv\<close> visits every declared field and throws at most once, and never a
  \<open>TypeError\<close>: it throws exactly when some field fails, and the problems of the one
  error are the problems of the failing fields, one for each, in the order of
  \<open>Object.keys\<close>: the keys that are array indices first, in ascending numeric order,
  then the other keys in the order of declaration. Each problem carries the key of its
  field. When no key is an array index, that order is the order of declaration.
\<close>

theorem createEnv_aggregates:
  assumes "\<forall>kd \<in> set defs. readsVariable penv (fst kd)"
  shows "(createEnv penv defs = Inl (EnvValidationError ps) \<longleftrightarrow>
            ps \<noteq> [] \<and> ps = List.map_filter (spec_problem penv) (Object_keys defs)) \<and>
         ((\<exists>obj. createEnv penv defs = Inr obj) \<longleftrightarrow>
            List.map_filter (spec_problem penv) (Object_keys defs) = []) \<and>
         createEnv penv defs \<noteq> Inl TypeError \<and>
         (spec_problem penv kd = Some p \<longrightarrow> key p = fst kd) \<and>
         ((\<forall>kd \<in> set defs. \<not> isArrayIndex (fst kd)) \<longrightarrow> Object_keys defs = defs)"
proof -
  have k: "spec_problem penv kd = Some p \<longrightarrow> key p = fst kd"
  proof (cases "spec_normalize (snd kd)")
    case (EnumField vs req)
    then show ?thesis
      by (cases "penv (fst kd)") (auto simp: spec_problem_def split: if_splits)
  next
    case (PrimitiveField t req dflt nl)
    then show ?thesis
      by (cases "penv (fst kd)"; cases t) (auto simp: spec_problem_def split: if_splits)
  qed
  from createEnv_spec[OF assms] obtain st where
    "runLoop penv initialState (Object_keys defs) = Inr st"
    and run: "createEnv penv defs =
             (if spec_problems penv (Object_keys defs) = []
              then Inr (Object_freeze (result st))
              else Inl (EnvValidationError (spec_problems penv (Object_keys defs))))"
    by (elim exE conjE)
  show ?thesis
    using k Object_keys_no_index[of defs]
    by (auto simp: run spec_problems_def)
qed

text \<open>
  An instance of C2: the schema with a malformed number and a missing required string
  gives one error with two problems, in the order of declaration.
\<close>

theorem createEnv_aggregates_witness:
  "createEnv [''PORT'' \<mapsto> ''notanumber'']
     [(''PORT'', Long \<lparr>ltype = TNumber, lrequired = None,
          ldefault = JUndefined, lnullable = None, ldescription = None\<rparr>),
      (''DATABASE_URL'', Long \<lparr>ltype = TString, lrequired = Some True,
          ldefault = JUndefined, lnullable = None, ldescription = None\<rparr>)]
   = Inl (EnvValidationError
       [\<lparr>key = ''PORT'', message = ''is not a valid number'',
           pvalue = Some (RawString ''notanumber'')\<rparr>,
        \<lparr>key = ''DATABASE_URL'', message = ''is required but missing'', pvalue = None\<rparr>])"
  using createEnv_aggregates[of
     "[(''PORT'', Long \<lparr>ltype = TNumber, lrequired = None,
          ldefault = JUndefined, lnullable = None, ldescription = None\<rparr>),
      (''DATABASE_URL'', Long \<lparr>ltype = TString, lrequired = Some True,
          ldefault = JUndefined, lnullable = None, ldescription = None\<rparr>)]"
     "[''PORT'' \<mapsto> ''notanumber'']"
     "[\<lparr>key = ''PORT'', message = ''is not a valid number'',
           pvalue = Some (RawString ''notanumber'')\<rparr>,
        \<lparr>key = ''DATABASE_URL'', message = ''is required but missing'', pvalue = None\<rparr>]"]
  by (simp add: spec_problem_def js_Number_notanumber readsVariable_def key_eval)

text \<open>
  C2 as stated fails: declared after \<open>PORT\<close>, the field \<open>1\<close> is visited first, and its
  problem comes first in the error, where the order of declaration puts it second.
\<close>

theorem createEnv_order_counterexample:
  "createEnv [''PORT'' \<mapsto> ''notanumber'']
     [(''PORT'', ShortPrimitive TNumber), (''1'', ShortPrimitive TString)]
   = Inl (EnvValidationError
       [\<lparr>key = ''1'', message = ''is required but missing'', pvalue = None\<rparr>,
        \<lparr>key = ''PORT'', message = ''is not a valid number'',
           pvalue = Some (RawString ''notanumber'')\<rparr>]) \<and>
   List.map_filter (spec_problem [''PORT'' \<mapsto> ''notanumber''])
     [(''PORT'', ShortPrimitive TNumber), (''1'', ShortPrimitive TString)]
   = [\<lparr>key = ''PORT'', message = ''is not a valid number'',
         pvalue = Some (RawString ''notanumber'')\<rparr>,
      \<lparr>key = ''1'', message = ''is required but missing'', pvalue = None\<rparr>]"
  by (simp add: createEnv_def loopBody_def initialState_def push_def js_Number_notanumber
      key_eval spec_problem_def)

text \<open>
  C3. The claim: a primitive field counts as provided exactly when its raw value is
  present, a default is defined or \<open>nullable\<close> is set, and a required field that is not
  provided yields the problem \<open>is required but missing\<close>. The code does not keep it for
  keys that name a member of \<open>Object.prototype\<close>: for the required string field
  \<open>toString\<close>, with no variable of that name, no default and \<open>nullable\<close> not set, the
  read \<open>process.env[key]\<close> gives the inherited function, the field counts as provided,
  and \<open>createEnv\<close> returns the function as the value of the field.
\<close>

theorem required_field_inherited:
  "Map.empty ''toString'' = (None :: string option) \<and>
   normalizeDef (Long \<lparr>ltype = TString, lrequired = Some True, ldefault = JUndefined,
        lnullable = None, ldescription = None\<rparr>) = Primitive TString True JUndefined (Some False) \<and>
   createEnv Map.empty
     [(''toString'', Long \<lparr>ltype = TString, lrequired = Some True, ldefault = JUndefined,
        lnullable = None, ldescription = None\<rparr>)]
     = Inr \<lparr>props = [''toString'' \<mapsto> JInherited ''toString''], proto = ObjectPrototype,
           frozen = True\<rparr>"
  by (simp add: createEnv_def Object_keys_single loopBody_def envGet_def Let_def
      objectPrototypeMembers_def initialState_def emptyObject_def assign_def setProperty_def
      runsProtoSetter_def Object_freeze_def)

text \<open>
  C4. For a boolean field whose variable is set: a case-insensitive match with one of
  \<open>1, true, yes, on\<close> resolves to \<open>true\<close>, one with \<open>0, false, no, off\<close> resolves to
  \<open>false\<close>, and every other raw string yields the problem \<open>is not a valid boolean\<close>
  carrying the raw value. The instances are \<open>TRUE\<close>, \<open>yes\<close>, \<open>on\<close>, \<open>1\<close>, \<open>0\<close>,
  \<open>off\<close>, \<open>No\<close> and \<open>maybe\<close>.
\<close>

theorem boolean_coercion:
  assumes "normalizeDef d = Primitive TBoolean req dflt nl" and "penv k = Some raw"
  shows "(matchesAny raw truthyWords \<longrightarrow>
            loopBody penv st (k, d) = Inr (assign st k (JBool True)) \<and>
            createEnv penv [(k, d)] =
              Inr (Object_freeze (setProperty emptyObject k (JBool True)))) \<and>
         (matchesAny raw falsyWords \<longrightarrow>
            loopBody penv st (k, d) = Inr (assign st k (JBool False)) \<and>
            createEnv penv [(k, d)] =
              Inr (Object_freeze (setProperty emptyObject k (JBool False)))) \<and>
         (\<not> matchesAny raw truthyWords \<and> \<not> matchesAny raw falsyWords \<longrightarrow>
            loopBody penv st (k, d) =
              Inr (push st \<lparr>key = k, message = ''is not a valid boolean'',
                     pvalue = Some (RawString raw)\<rparr>) \<and>
            createEnv penv [(k, d)] =
              Inl (EnvValidationError
                [\<lparr>key = k, message = ''is not a valid boolean'',
                    pvalue = Some (RawString raw)\<rparr>]))"
proof -
  from assms(2) have rv: "readsVariable penv k"
    by (simp add: readsVariable_def envGet_def)
  show ?thesis
    using normalize_primitive[OF assms(1)] assms(2) truthy_not_falsy[of raw]
    by (auto simp: loopBody_spec[OF rv] createEnv_single[OF rv] outcome_def)
qed

text \<open>An instance of C4 on a concrete schema.\<close>

theorem boolean_coercion_witness:
  "createEnv [''DEBUG'' \<mapsto> ''TRUE''] [(''DEBUG'', ShortPrimitive TBoolean)]
     = Inr \<lparr>props = [''DEBUG'' \<mapsto> JBool True], proto = ObjectPrototype, frozen = True\<rparr> \<and>
   createEnv [''DEBUG'' \<mapsto> ''yes''] [(''DEBUG'', ShortPrimitive TBoolean)]
     = Inr \<lparr>props = [''DEBUG'' \<mapsto> JBool True], proto = ObjectPrototype, frozen = True\<rparr> \<and>
   createEnv [''DEBUG'' \<mapsto> ''on''] [(''DEBUG'', ShortPrimitive TBoolean)]
     = Inr \<lparr>props = [''DEBUG'' \<mapsto> JBool True], proto = ObjectPrototype, frozen = True\<rparr> \<and>
   createEnv [''DEBUG'' \<mapsto> ''1''] [(''DEBUG'', ShortPrimitive TBoolean)]
     = Inr \<lparr>props = [''DEBUG'' \<mapsto> JBool True], proto = ObjectPrototype, frozen = True\<rparr> \<and>
   createEnv [''DEBUG'' \<mapsto> ''0''] [(''DEBUG'', ShortPrimitive TBoolean)]
     = Inr \<lparr>props = [''DEBUG'' \<mapsto> JBool False], proto = ObjectPrototype, frozen = True\<rparr> \<and>
   createEnv [''DEBUG'' \<mapsto> ''off''] [(''DEBUG'', ShortPrimitive TBoolean)]
     = Inr \<lparr>props = [''DEBUG'' \<mapsto> JBool False], proto = ObjectPrototype, frozen = True\<rparr> \<and>
   createEnv [''DEBUG'' \<mapsto> ''No''] [(''DEBUG'', ShortPrimitive TBoolean)]
     = Inr \<lparr>props = [''DEBUG'' \<mapsto> JBool False], proto = ObjectPrototype, frozen = True\<rparr> \<and>
   createEnv [''DEBUG'' \<mapsto> ''maybe''] [(''DEBUG'', ShortPrimitive TBoolean)]
     = Inl (EnvValidationError
         [\<lparr>key = ''DEBUG'', message = ''is not a valid boolean'',
             pvalue = Some (RawString ''maybe'')\<rparr>])"
proof -
  have n: "normalizeDef (ShortPrimitive TBoolean) = Primitive TBoolean True JUndefined None"
    by simp
  have ev: "matchesAny ''TRUE'' truthyWords" "matchesAny ''yes'' truthyWords"
    "matchesAny ''on'' truthyWords" "matchesAny ''1'' truthyWords"
    "matchesAny ''0'' falsyWords" "matchesAny ''off'' falsyWords" "matchesAny ''No'' falsyWords"
    "\<not> matchesAny ''maybe'' truthyWords" "\<not> matchesAny ''maybe'' falsyWords"
    by (simp_all add: matchesAny_def truthyWords_def falsyWords_def matchesIgnoringCase_def
        sameIgnoringCase_def isAsciiLetter_def)
  show ?thesis
    using boolean_coercion[OF n, of "[''DEBUG'' \<mapsto> ''TRUE'']" "''DEBUG''" "''TRUE''" initialState]
      boolean_coercion[OF n, of "[''DEBUG'' \<mapsto> ''yes'']" "''DEBUG''" "''yes''" initialState]
      boolean_coercion[OF n, of "[''DEBUG'' \<mapsto> ''on'']" "''DEBUG''" "''on''" initialState]
      boolean_coercion[OF n, of "[''DEBUG'' \<mapsto> ''1'']" "''DEBUG''" "''1''" initialState]
      boolean_coercion[OF n, of "[''DEBUG'' \<mapsto> ''0'']" "''DEBUG''" "''0''" initialState]
      boolean_coercion[OF n, of "[''DEBUG'' \<mapsto> ''off'']" "''DEBUG''" "''off''" initialState]
      boolean_coercion[OF n, of "[''DEBUG'' \<mapsto> ''No'']" "''DEBUG''" "''No''" initialState]
      boolean_coercion[OF n, of "[''DEBUG'' \<mapsto> ''maybe'']" "''DEBUG''" "''maybe''" initialState]
      ev
    by (simp add: freeze_setProperty)
qed



text \<open>
  C6. \<open>normalizeDef\<close> is a total function that maps an array of strings to an enum
  with those values and \<open>required = true\<close>, a primitive tag to a required primitive with
  no default and no \<open>nullable\<close> property (which reads as false), and a long-form
  descriptor to a primitive whose \<open>required\<close> is true exactly when the descriptor's flag
  is \<open>true\<close>, whatever its default. Read as a canonical form of the specification, the
  result is the one the specification's rules give.
\<close>

theorem normalizeDef_canonical:
  "normalizeDef (ShortEnum vs) = Enum vs True \<and>
   normalizeDef (ShortPrimitive t) = Primitive t True JUndefined None \<and>
   normalizeDef (Long l) =
     Primitive (ltype l) (lrequired l = Some True) (ldefault l) (Some (lnullable l = Some True)) \<and>
   abstractDef (normalizeDef d) = spec_normalize d"
proof -
  have "abstractDef (normalizeDef d) = spec_normalize d"
    by (cases d) (simp_all add: map_js_String truthy_eq)
  then show ?thesis
    by (simp add: map_js_String truthy_eq)
qed

text \<open>An instance of C6 on a concrete schema.\<close>

theorem normalizeDef_canonical_witness:
  "normalizeDef (ShortEnum [''development'', ''test'', ''production''])
     = Enum [''development'', ''test'', ''production''] True \<and>
   abstractDef (normalizeDef (ShortPrimitive TString))
     = PrimitiveField TString True JUndefined False \<and>
   normalizeDef (Long \<lparr>ltype = TNumber, lrequired = None, ldefault = JNum (Finite 3000),
       lnullable = None, ldescription = None\<rparr>)
     = Primitive TNumber False (JNum (Finite 3000)) (Some False) \<and>
   normalizeDef (Long \<lparr>ltype = TString, lrequired = Some True, ldefault = JUndefined,
       lnullable = Some False, ldescription = Some ''connection string''\<rparr>)
     = Primitive TString True JUndefined (Some False)"
  using normalizeDef_canonical[of "[''development'', ''test'', ''production'']" TString
      "\<lparr>ltype = TNumber, lrequired = None, ldefault = JNum (Finite 3000),
       lnullable = None, ldescription = None\<rparr>" "ShortPrimitive TString"]
    normalizeDef_canonical[of "[]" TString
      "\<lparr>ltype = TString, lrequired = Some True, ldefault = JUndefined,
       lnullable = Some False, ldescription = Some ''connection string''\<rparr>" "ShortPrimitive TString"]
  by simp



text \<open>
  C8. The object \<open>createEnv\<close> returns is frozen: an attempt to assign, delete or
  define a property throws or does nothing, in strict and in sloppy code, and after any
  sequence of attempts the object, and so every read of it, is as it was returned.
\<close>

theorem result_immutable:
  assumes "createEnv penv defs = Inr obj"
  shows "frozen obj \<and> snd (mutate strict m obj) = obj \<and> mutateAll strict ms obj = obj \<and>
         props (mutateAll strict ms obj) k = props obj k"
proof -
  have fr: "frozen obj"
  proof (cases "runLoop penv initialState (Object_keys defs)")
    case (Inl thrown)
    with assms show ?thesis by (simp add: createEnv_def)
  next
    case (Inr st)
    with assms have "obj = Object_freeze (result st)"
      by (simp add: createEnv_def split: if_splits)
    then show ?thesis by (simp add: Object_freeze_def)
  qed
  have one: "snd (mutate strict m' obj) = obj" for m'
    using fr by (cases m') (simp_all split: option.split)
  have many: "mutateAll strict ms obj = obj"
    by (induction ms) (simp_all add: one)
  from fr one many show ?thesis by simp
qed

text \<open>An instance of C8 on a concrete schema.\<close>

theorem result_immutable_witness:
  "frozen \<lparr>props = [''PORT'' \<mapsto> JNum (Finite 4000)], proto = ObjectPrototype, frozen = True\<rparr> \<and>
   mutateAll True [Assign ''PORT'' (JNum (Finite 1)), Delete ''PORT'', Assign ''NEW'' JNull,
       DefineProperty ''PORT'' (JStr ''x''), Assign ''__proto__'' JNull]
     \<lparr>props = [''PORT'' \<mapsto> JNum (Finite 4000)], proto = ObjectPrototype, frozen = True\<rparr>
     = \<lparr>props = [''PORT'' \<mapsto> JNum (Finite 4000)], proto = ObjectPrototype, frozen = True\<rparr> \<and>
   mutate True (Assign ''PORT'' (JNum (Finite 1)))
     \<lparr>props = [''PORT'' \<mapsto> JNum (Finite 4000)], proto = ObjectPrototype, frozen = True\<rparr>
     = (True, \<lparr>props = [''PORT'' \<mapsto> JNum (Finite 4000)], proto = ObjectPrototype,
                frozen = True\<rparr>) \<and>
   mutate False (Delete ''PORT'')
     \<lparr>props = [''PORT'' \<mapsto> JNum (Finite 4000)], proto = ObjectPrototype, frozen = True\<rparr>
     = (False, \<lparr>props = [''PORT'' \<mapsto> JNum (Finite 4000)], proto = ObjectPrototype,
                 frozen = True\<rparr>)"
proof -
  have rp: "readsVariable [''PORT'' \<mapsto> ''4000''] ''PORT''"
    by (simp add: readsVariable_def envGet_def)
  have run: "createEnv [''PORT'' \<mapsto> ''4000''] [(''PORT'', ShortPrimitive TNumber)]
       = Inr \<lparr>props = [''PORT'' \<mapsto> JNum (Finite 4000)], proto = ObjectPrototype,
             frozen = True\<rparr>"
    by (simp add: createEnv_single[OF rp] js_Number_4000 freeze_setProperty)
  from result_immutable[OF run, of True "Assign ''PORT'' (JNum (Finite 1))"
      "[Assign ''PORT'' (JNum (Finite 1)), Delete ''PORT'', Assign ''NEW'' JNull,
       DefineProperty ''PORT'' (JStr ''x''), Assign ''__proto__'' JNull]" "''PORT''"]
  show ?thesis by (simp add: runsProtoSetter_def)
qed

text \<open>
  C9. The raw value \<open>null\<close> resolves to \<open>null\<close> for a nullable string field only. For
  a number field it yields the problem \<open>is not a valid number\<close> and for a boolean field
  the problem \<open>is not a valid boolean\<close>, each carrying the raw value, whether the field
  is nullable or not.
\<close>

theorem null_literal_only_for_strings:
  assumes "normalizeDef d = Primitive t req dflt nl" and "penv k = Some ''null''"
  shows "(t = TNumber \<longrightarrow>
            loopBody penv st (k, d) =
              Inr (push st \<lparr>key = k, message = ''is not a valid number'',
                     pvalue = Some (RawString ''null'')\<rparr>) \<and>
            createEnv penv [(k, d)] = Inl (EnvValidationError
              [\<lparr>key = k, message = ''is not a valid number'',
                  pvalue = Some (RawString ''null'')\<rparr>])) \<and>
         (t = TBoolean \<longrightarrow>
            loopBody penv st (k, d) =
              Inr (push st \<lparr>key = k, message = ''is not a valid boolean'',
                     pvalue = Some (RawString ''null'')\<rparr>) \<and>
            createEnv penv [(k, d)] = Inl (EnvValidationError
              [\<lparr>key = k, message = ''is not a valid boolean'',
                  pvalue = Some (RawString ''null'')\<rparr>])) \<and>
         (t = TString \<longrightarrow>
            loopBody penv st (k, d) =
              Inr (assign st k (if truthy nl then JNull else JStr ''null'')))"
proof -
  from assms(2) have rv: "readsVariable penv k"
    by (simp add: readsVariable_def envGet_def)
  show ?thesis
    using normalize_primitive[OF assms(1)] assms(2) null_not_boolean
    by (auto simp: loopBody_spec[OF rv] createEnv_single[OF rv] outcome_def js_Number_null)
qed

text \<open>An instance of C9 on a concrete schema.\<close>

theorem null_literal_only_for_strings_witness:
  "createEnv [''PORT'' \<mapsto> ''null'']
     [(''PORT'', Long \<lparr>ltype = TNumber, lrequired = None, ldefault = JUndefined,
          lnullable = Some True, ldescription = None\<rparr>)]
     = Inl (EnvValidationError
         [\<lparr>key = ''PORT'', message = ''is not a valid number'',
             pvalue = Some (RawString ''null'')\<rparr>]) \<and>
   createEnv [''DEBUG'' \<mapsto> ''null'']
     [(''DEBUG'', Long \<lparr>ltype = TBoolean, lrequired = None, ldefault = JUndefined,
          lnullable = Some True, ldescription = None\<rparr>)]
     = Inl (EnvValidationError
         [\<lparr>key = ''DEBUG'', message = ''is not a valid boolean'',
             pvalue = Some (RawString ''null'')\<rparr>])"
proof -
  let ?n = "Long \<lparr>ltype = TNumber, lrequired = None, ldefault = JUndefined,
          lnullable = Some True, ldescription = None\<rparr>"
  let ?b = "Long \<lparr>ltype = TBoolean, lrequired = None, ldefault = JUndefined,
          lnullable = Some True, ldescription = None\<rparr>"
  have n: "normalizeDef ?n = Primitive TNumber False JUndefined (Some True)"
    and b: "normalizeDef ?b = Primitive TBoolean False JUndefined (Some True)"
    by simp_all
  show ?thesis
    using null_literal_only_for_strings[OF n, of "[''PORT'' \<mapsto> ''null'']" "''PORT''" initialState]
      null_literal_only_for_strings[OF b, of "[''DEBUG'' \<mapsto> ''null'']" "''DEBUG''" initialState]
    by simp
qed

text \<open>
  C10. For a number field, a raw value that is empty or consists of white space only is
  accepted and resolves to the number 0.
\<close>

theorem blank_number_is_zero:
  assumes "normalizeDef d = Primitive TNumber req dflt nl" and "penv k = Some raw"
    and "list_all isStrWhiteSpaceChar raw"
  shows "js_Number raw = Finite 0 \<and>
         loopBody penv st (k, d) = Inr (assign st k (JNum (Finite 0))) \<and>
         createEnv penv [(k, d)] =
           Inr (Object_freeze (setProperty emptyObject k (JNum (Finite 0))))"
proof -
  from assms(2) have rv: "readsVariable penv k"
    by (simp add: readsVariable_def envGet_def)
  show ?thesis
    using normalize_primitive[OF assms(1)] assms(2) js_Number_blank[OF assms(3)]
    by (simp add: loopBody_spec[OF rv] createEnv_single[OF rv] outcome_def)
qed

text \<open>An instance of C10 on a concrete schema.\<close>

theorem blank_number_is_zero_witness:
  "createEnv [''PORT'' \<mapsto> ''''] [(''PORT'', ShortPrimitive TNumber)]
     = Inr \<lparr>props = [''PORT'' \<mapsto> JNum (Finite 0)], proto = ObjectPrototype, frozen = True\<rparr> \<and>
   createEnv [''PORT'' \<mapsto> ''   ''] [(''PORT'', ShortPrimitive TNumber)]
     = Inr \<lparr>props = [''PORT'' \<mapsto> JNum (Finite 0)], proto = ObjectPrototype, frozen = True\<rparr>"
proof -
  have n: "normalizeDef (ShortPrimitive TNumber) = Primitive TNumber True JUndefined None"
    by simp
  have w: "list_all isStrWhiteSpaceChar ''''" "list_all isStrWhiteSpaceChar ''   ''"
    by (simp_all add: isStrWhiteSpaceChar_def)
  show ?thesis
    using blank_number_is_zero[OF n, of "[''PORT'' \<mapsto> '''']" "''PORT''" "''''" initialState]
      blank_number_is_zero[OF n, of "[''PORT'' \<mapsto> ''   '']" "''PORT''" "''   ''" initialState]
      w
    by (simp add: freeze_setProperty)
qed

end
